theory Spec2Isabelle
  imports Main "HOL-Library.Word"
begin

section \<open>The job and job-result submission example\<close>

text \<open>
  A shallow embedding of \<^verbatim>\<open>types/src/examples/job_and_result_submission.ts\<close>. The
  script is one \<^verbatim>\<open>async\<close> procedure. Its constants are modelled as definitions of
  the same names, its suspension points (\<^verbatim>\<open>await\<close>) as steps of a procedure that
  records every externally visible action in a trace, and everything it calls outside
  the file (the key and hash libraries, the chain behind the RPC connection) as
  parameters: a record of library functions and a record of what the node answers.
\<close>

subsection \<open>Bytes, buffers and arrays of the run-time\<close>

type_synonym byte = "8 word"
type_synonym bytes = "byte list"

text \<open>
  \<^verbatim>\<open>Buffer.from(s, "hex")\<close>: two hexadecimal digits make a byte; decoding stops at the
  first pair that is not hexadecimal, and a single trailing digit is dropped.
\<close>

definition hexDigit :: "char \<Rightarrow> nat option" where
  "hexDigit c =
     (let n = (of_char c :: nat) in
      if 48 \<le> n \<and> n \<le> 57 then Some (n - 48)
      else if 97 \<le> n \<and> n \<le> 102 then Some (n - 87)
      else if 65 \<le> n \<and> n \<le> 70 then Some (n - 55)
      else None)"

fun Buffer_from_hex :: "string \<Rightarrow> bytes" where
  "Buffer_from_hex (a # b # rest) =
     (case (hexDigit a, hexDigit b) of
        (Some x, Some y) \<Rightarrow> word_of_nat (16 * x + y) # Buffer_from_hex rest
      | _ \<Rightarrow> [])"
| "Buffer_from_hex _ = []"

text \<open>
  A JavaScript array of numbers. A slot that was never written is a hole (\<open>None\<close>).
  \<^verbatim>\<open>Array.from(buffer)\<close> lists the bytes as numbers; \<^verbatim>\<open>a[i] = x\<close> overwrites slot
  \<open>i\<close> when it exists and otherwise extends the array up to it, leaving holes in
  between; \<^verbatim>\<open>Uint8Array.from(a)\<close> reads a hole as 0 and a number modulo 256.
\<close>

type_synonym js_array = "int option list"

definition Array_from :: "bytes \<Rightarrow> js_array" where
  "Array_from b = map (\<lambda>x. Some (uint x)) b"

definition array_store :: "js_array \<Rightarrow> nat \<Rightarrow> int \<Rightarrow> js_array" where
  "array_store a i x =
     (if i < length a then a[i := Some x]
      else a @ replicate (i - length a) None @ [Some x])"

definition Uint8Array_from :: "js_array \<Rightarrow> bytes" where
  "Uint8Array_from a = map (\<lambda>s. case s of None \<Rightarrow> 0 | Some n \<Rightarrow> word_of_int n) a"

subsection \<open>The libraries the script imports\<close>

text \<open>
  \<^verbatim>\<open>@polkadot/keyring\<close>, \<^verbatim>\<open>@polkadot/util\<close>, \<^verbatim>\<open>@polkadot/util-crypto\<close> and
  \<^verbatim>\<open>ecpair\<close> are not part of the repository; the model takes their functions as
  parameters. A key pair is what \<^verbatim>\<open>ECPair.fromPrivateKey\<close> returns; its second
  argument is the \<^verbatim>\<open>compressed\<close> option, \<open>None\<close> when the call passes no options.
  On the fixed, well-formed keys and the 32-byte digest of this script the library
  calls return, so they are total functions here.
\<close>

record keyring_pair =
  address :: string

record ecpair =
  privateKey :: bytes
  compressed :: bool
  publicKey :: bytes

record libs =
  addFromUri :: "string \<Rightarrow> keyring_pair"
  u8aToHex :: "bytes \<Rightarrow> string"
  keccak256AsU8a :: "bytes \<Rightarrow> bytes"
  fromPrivateKey :: "bytes \<Rightarrow> bool option \<Rightarrow> ecpair"
  sign :: "ecpair \<Rightarrow> bytes \<Rightarrow> bool \<Rightarrow> bytes"

subsection \<open>Calls of the chain's runtime\<close>

datatype tss_role = DfnsCGGMP21Secp256k1

datatype role_type = Tss tss_role

record profile_record =
  role :: role_type

datatype profile = Shared (records: "profile_record list") (amount: string)

datatype job_type =
  DkgtssPhaseOne (participants: "string list") (threshold: nat)
    (permittedCaller: "string option") (roleType: tss_role)

record job_submission =
  expiry :: nat
  ttl :: nat
  jobType :: job_type

datatype signature_scheme = Ecdsa

datatype job_result =
  DKGPhaseOne (key: string) (signatures: "string list") (result_threshold: nat)
    (signatureScheme: signature_scheme)

type_synonym job_id = "64 word"

datatype call =
  createProfile profile nat
| submitJob job_submission
| submitJobResult role_type job_id job_result

subsection \<open>What the node answers\<close>

text \<open>
  An awaited promise resolves, rejects, or stays pending for ever. The status of a
  submitted extrinsic is the client library's \<^verbatim>\<open>ExtrinsicStatus\<close>; a block hash is
  kept as the text its \<^verbatim>\<open>toHex()\<close> prints, and an event's data as the text the
  template literal prints. \<^verbatim>\<open>events\<close> may be undefined (\<open>None\<close>): the callback
  defaults it to the empty list.
\<close>

datatype error = Error string

datatype 'a promise = Resolves 'a | Rejects error | Pending

datatype extrinsic_status =
  Future | Ready | Broadcast "string list" | InBlock string | Retracted string
| FinalityTimeout string | Finalized string | Usurped string | Dropped | Invalid

record event_record =
  ev_section :: string
  ev_method :: string
  ev_data :: string

record submittable_result =
  status :: extrinsic_status
  events :: "event_record list option"

text \<open>
  The world of one run: the outcome of connecting, of the readiness promise and of the
  storage query, and for the \<open>k\<close>-th \<^verbatim>\<open>signAndSend\<close> of the run (counted from 0) the
  outcome of the call (it signs the extrinsic and sends it to the node, and rejects when
  either fails) and, when it resolves to a subscription, the status updates the node
  then delivers to the callback, in order. The process's arguments and
  environment are part of the world too; the script reads neither.
\<close>

record world =
  create :: "unit promise"
  isReady :: "unit promise"
  nextJobId :: "job_id promise"
  signAndSend :: "nat \<Rightarrow> submittable_result list promise"
  argv :: "string list"
  env :: "string \<Rightarrow> string option"

subsection \<open>Procedures with a trace\<close>

text \<open>
  The actions of the script that are visible outside it, and the three ways a run can
  end: the process exits with a status, a rejection nobody handles, or the flow stays
  suspended on a promise that never settles.
\<close>

datatype action =
  Connect string
| Query string
| SignAndSend nat call keyring_pair
| Unsub nat
| Log "string list"
| AssertionFailed string
| Exit int

datatype outcome = Exited int | Unhandled error | Suspended

type_synonym 'a proc = "action list \<times> (outcome + 'a)"

definition bnd :: "'a proc \<Rightarrow> ('a \<Rightarrow> 'b proc) \<Rightarrow> 'b proc" where
  "bnd m f =
     (case m of
        (tr, Inl out) \<Rightarrow> (tr, Inl out)
      | (tr, Inr a) \<Rightarrow> (case f a of (tr', r) \<Rightarrow> (tr @ tr', r)))"

definition emit :: "action \<Rightarrow> unit proc" where
  "emit a = ([a], Inr ())"

definition await :: "'a promise \<Rightarrow> 'a proc" where
  "await p =
     (case p of
        Resolves a \<Rightarrow> ([], Inr a)
      | Rejects e \<Rightarrow> ([], Inl (Unhandled e))
      | Pending \<Rightarrow> ([], Inl Suspended))"

definition console_assert :: "bool \<Rightarrow> string \<Rightarrow> unit proc" where
  "console_assert ok msg = (if ok then ([], Inr ()) else ([AssertionFailed msg], Inr ()))"

definition process_exit :: "int \<Rightarrow> 'a proc" where
  "process_exit code = ([Exit code], Inl (Exited code))"

subsection \<open>The script\<close>

definition ALICE :: "libs \<Rightarrow> keyring_pair" where
  "ALICE lib = addFromUri lib ''//Alice''"

definition BOB :: "libs \<Rightarrow> keyring_pair" where
  "BOB lib = addFromUri lib ''//Bob''"

definition ALICE_ROLE_SEED :: bytes where
  "ALICE_ROLE_SEED =
     Buffer_from_hex ''cb6df9de1efca7a3998a8ead4e02159d5fa99c3e0d4fd6432667390bb4726854''"

definition BOB_ROLE_SEED :: bytes where
  "BOB_ROLE_SEED =
     Buffer_from_hex ''79c3b7fc0b7697b9414cb87adcb37317d1cab32818ae18c0e97ad76395d1fdcf''"

definition ALICE_ROLE :: "libs \<Rightarrow> ecpair" where
  "ALICE_ROLE lib = fromPrivateKey lib ALICE_ROLE_SEED None"

definition BOB_ROLE :: "libs \<Rightarrow> ecpair" where
  "BOB_ROLE lib = fromPrivateKey lib BOB_ROLE_SEED None"

definition creatingProfileTx :: call where
  "creatingProfileTx =
     createProfile
       (Shared [\<lparr>role = Tss DfnsCGGMP21Secp256k1\<rparr>] ''10000000000000000000'') 10"

definition submittingJobTx :: "libs \<Rightarrow> call" where
  "submittingJobTx lib =
     submitJob
       \<lparr>expiry = 100, ttl = 100,
        jobType = DkgtssPhaseOne [address (ALICE lib), address (BOB lib)] 1 None
                    DfnsCGGMP21Secp256k1\<rparr>"

definition dkgKeyPair :: "libs \<Rightarrow> ecpair" where
  "dkgKeyPair lib =
     fromPrivateKey lib
       (Buffer_from_hex ''eec7245d6b7d2ccb30380bfbe2a3648cd7a942653f5aa340edcea1f283686619'')
       (Some False)"

definition dkgPublicKey :: "libs \<Rightarrow> bytes" where
  "dkgPublicKey lib = publicKey (dkgKeyPair lib)"

definition dkgPublicKeyHash :: "libs \<Rightarrow> bytes" where
  "dkgPublicKeyHash lib = keccak256AsU8a lib (dkgPublicKey lib)"

definition lowR :: bool where
  "lowR = False"

definition signature1 :: "libs \<Rightarrow> bytes" where
  "signature1 lib = sign lib (ALICE_ROLE lib) (dkgPublicKeyHash lib) lowR"

definition signature2 :: "libs \<Rightarrow> bytes" where
  "signature2 lib = sign lib (BOB_ROLE lib) (dkgPublicKeyHash lib) lowR"

definition v :: int where
  "v = (if lowR then 27 else 28)"

definition signature1Array :: "libs \<Rightarrow> js_array" where
  "signature1Array lib = array_store (Array_from (signature1 lib)) 64 v"

definition signature2Array :: "libs \<Rightarrow> js_array" where
  "signature2Array lib = array_store (Array_from (signature2 lib)) 64 v"

definition submittingJobResultTx :: "libs \<Rightarrow> job_id \<Rightarrow> call" where
  "submittingJobResultTx lib jobId =
     submitJobResult (Tss DfnsCGGMP21Secp256k1) jobId
       (DKGPhaseOne (u8aToHex lib (dkgPublicKey lib))
          [u8aToHex lib (Uint8Array_from (signature1Array lib)),
           u8aToHex lib (Uint8Array_from (signature2Array lib))]
          1 Ecdsa)"

text \<open>
  The status callback of a submission, applied to the updates in the order the node
  delivers them. An update whose status is not \<^verbatim>\<open>isInBlock\<close> does nothing. The first
  one that is prints the block hash and the events, unsubscribes and resolves the
  promise the flow awaits. When the updates run out before that, the promise never
  settles.
\<close>

definition event_line :: "event_record \<Rightarrow> action" where
  "event_line e =
     Log [CHR 0x09 # ev_section e @ ''.'' @ ev_method e @ '':: '' @ ev_data e]"

fun callback :: "string \<Rightarrow> nat \<Rightarrow> submittable_result list \<Rightarrow> unit proc" where
  "callback name k [] = ([], Inl Suspended)"
| "callback name k (r # rs) =
     (case status r of
        InBlock h \<Rightarrow>
          ([Log [name @ '' Included at block hash'', h], Log [name @ '' Events:'']]
             @ map event_line (case events r of None \<Rightarrow> [] | Some es \<Rightarrow> es)
             @ [Unsub k],
           Inr ())
      | _ \<Rightarrow> callback name k rs)"

definition submit :: "world \<Rightarrow> string \<Rightarrow> nat \<Rightarrow> call \<Rightarrow> keyring_pair \<Rightarrow> unit proc" where
  "submit w name k tx signer =
     bnd (emit (SignAndSend k tx signer)) (\<lambda>_.
     bnd (await (signAndSend w k)) (\<lambda>updates.
     callback name k updates))"

definition main :: "libs \<Rightarrow> world \<Rightarrow> unit proc" where
  "main lib w =
     bnd (emit (Connect ''ws://127.0.0.1:9944'')) (\<lambda>_.
     bnd (await (create w)) (\<lambda>_.
     bnd (await (isReady w)) (\<lambda>_.
     bnd (emit (Log [''ALICE_ROLE_SEED:'', u8aToHex lib ALICE_ROLE_SEED])) (\<lambda>_.
     bnd (emit (Log [''BOB_ROLE_SEED:'', u8aToHex lib BOB_ROLE_SEED])) (\<lambda>_.
     bnd (emit (Log [''ALICE_ROLE:'', u8aToHex lib (publicKey (ALICE_ROLE lib))])) (\<lambda>_.
     bnd (emit (Log [''BOB_ROLE:'', u8aToHex lib (publicKey (BOB_ROLE lib))])) (\<lambda>_.
     bnd (emit (Query ''jobs.nextJobId'')) (\<lambda>_.
     bnd (await (nextJobId w)) (\<lambda>jobId.
     bnd (submit w ''[creatingProfileTx]'' 0 creatingProfileTx (ALICE lib)) (\<lambda>_.
     bnd (submit w ''[creatingProfileTx]'' 1 creatingProfileTx (BOB lib)) (\<lambda>_.
     bnd (submit w ''[submittingJobTx]'' 2 (submittingJobTx lib) (ALICE lib)) (\<lambda>_.
     bnd (console_assert (length (signature1Array lib) = 65)
            ''Signature 1 length is invalid'') (\<lambda>_.
     bnd (console_assert (length (signature2Array lib) = 65)
            ''Signature 2 length is invalid'') (\<lambda>_.
     bnd (submit w ''[submittingJobResultTx]'' 3 (submittingJobResultTx lib jobId)
            (ALICE lib)) (\<lambda>_.
     process_exit 0)))))))))))))))"

definition trace :: "libs \<Rightarrow> world \<Rightarrow> action list" where
  "trace lib w = fst (main lib w)"

definition result :: "libs \<Rightarrow> world \<Rightarrow> outcome + unit" where
  "result lib w = snd (main lib w)"

subsection \<open>Reading a world and a trace\<close>

definition isInBlock :: "extrinsic_status \<Rightarrow> bool" where
  "isInBlock st = (case st of InBlock h \<Rightarrow> True | _ \<Rightarrow> False)"

text \<open>The node reports the \<open>k\<close>-th submission as included in a block.\<close>

definition included :: "world \<Rightarrow> nat \<Rightarrow> bool" where
  "included w k =
     (case signAndSend w k of
        Resolves updates \<Rightarrow> list_ex (\<lambda>r. isInBlock (status r)) updates
      | _ \<Rightarrow> False)"

text \<open>
  The run gets as far as its \<open>k\<close>-th submission: the connection, the readiness promise
  and the storage query resolved, and every earlier submission was included.
\<close>

fun reached :: "world \<Rightarrow> nat \<Rightarrow> bool" where
  "reached w 0 =
     (create w = Resolves () \<and> isReady w = Resolves () \<and>
      (case nextJobId w of Resolves j \<Rightarrow> True | _ \<Rightarrow> False))"
| "reached w (Suc k) = (reached w k \<and> included w k)"

text \<open>The submissions of a trace, in order.\<close>

fun sent :: "action list \<Rightarrow> (nat \<times> call \<times> keyring_pair) list" where
  "sent [] = []"
| "sent (SignAndSend k tx signer # tr) = (k, tx, signer) # sent tr"
| "sent (a # tr) = sent tr"

text \<open>
  The submissions in flight after a trace: those sent whose inclusion the script has
  not yet observed (its callback unsubscribes at that moment).
\<close>

fun flight :: "nat list \<Rightarrow> action \<Rightarrow> nat list" where
  "flight fl (SignAndSend k tx signer) = k # fl"
| "flight fl (Unsub k) = removeAll k fl"
| "flight fl a = fl"

definition in_flight :: "action list \<Rightarrow> nat list" where
  "in_flight tr = foldl flight [] tr"

text \<open>What the script submits, in order, once the storage query has answered \<open>jobId\<close>.\<close>

definition plan :: "libs \<Rightarrow> job_id \<Rightarrow> (nat \<times> call \<times> keyring_pair) list" where
  "plan lib jobId =
     [(0, creatingProfileTx, ALICE lib), (1, creatingProfileTx, BOB lib),
      (2, submittingJobTx lib, ALICE lib), (3, submittingJobResultTx lib jobId, ALICE lib)]"

text \<open>
  A procedure keeps at most one submission in flight at every moment of its trace, and
  none when it returns to its caller.
\<close>

definition quiet :: "'a proc \<Rightarrow> bool" where
  "quiet p \<longleftrightarrow>
     (\<forall>n. length (in_flight (take n (fst p))) \<le> 1) \<and>
     (\<forall>a. snd p = Inr a \<longrightarrow> in_flight (fst p) = [])"

text \<open>
  What a run does before it queries the chain.
\<close>

definition preamble :: "libs \<Rightarrow> action list" where
  "preamble lib =
     [Connect ''ws://127.0.0.1:9944'',
      Log [''ALICE_ROLE_SEED:'', u8aToHex lib ALICE_ROLE_SEED],
      Log [''BOB_ROLE_SEED:'', u8aToHex lib BOB_ROLE_SEED],
      Log [''ALICE_ROLE:'', u8aToHex lib (publicKey (ALICE_ROLE lib))],
      Log [''BOB_ROLE:'', u8aToHex lib (publicKey (BOB_ROLE lib))]]"

text \<open>The exit statuses of a trace, in order.\<close>

fun exits :: "action list \<Rightarrow> int list" where
  "exits [] = []"
| "exits (Exit c # tr) = c # exits tr"
| "exits (a # tr) = exits tr"

subsection \<open>The job counter of the chain\<close>

text \<open>
  The same world with other events in the status updates: \<open>f k r\<close> replaces the events
  of the update \<open>r\<close> of the \<open>k\<close>-th submission.
\<close>

definition with_events ::
  "(nat \<Rightarrow> submittable_result \<Rightarrow> event_record list option) \<Rightarrow> world \<Rightarrow> world" where
  "with_events f w =
     w\<lparr>signAndSend := (\<lambda>k.
         case signAndSend w k of
           Resolves updates \<Rightarrow> Resolves (map (\<lambda>r. r\<lparr>events := f k r\<rparr>) updates)
         | Rejects e \<Rightarrow> Rejects e
         | Pending \<Rightarrow> Pending)\<rparr>"

text \<open>
  How the chain reports a call that it refused when dispatching it: the extrinsic is
  included in a block all the same, and the events of that status update hold
  \<^verbatim>\<open>system.ExtrinsicFailed\<close>.
\<close>

definition dispatch_failed :: "submittable_result \<Rightarrow> bool" where
  "dispatch_failed r =
     (isInBlock (status r) \<and>
      (case events r of
         None \<Rightarrow> False
       | Some es \<Rightarrow>
           list_ex (\<lambda>e. ev_section e = ''system'' \<and> ev_method e = ''ExtrinsicFailed'') es))"

text \<open>
  The part of the chain's state the script relies on: the counter that
  \<^verbatim>\<open>api.query.jobs.nextJobId\<close> reads, and the jobs submitted so far, each under the
  identifier the chain gave it.
\<close>

record chain =
  next_job_id :: job_id
  jobs :: "(job_id \<times> job_submission) list"


subsection \<open>Stand-ins for running the model\<close>

text \<open>
  A stand-in for the libraries, with the shapes of the real ones (a hexadecimal
  rendering with the \<^verbatim>\<open>0x\<close> prefix, a 32-byte digest, SEC1-shaped public keys of 33
  and 65 bytes, a 64-byte signature) and none of their cryptography, and three nodes:
  one that includes every transaction, one that rejects the second submission, and one
  that drops the job submission without ever including it. A fourth node, whose chain
  refuses a call, follows them.
\<close>

definition hex_of_bytes :: "bytes \<Rightarrow> string" where
  "hex_of_bytes b =
     ''0x'' @ concat (map (\<lambda>x. [''0123456789abcdef'' ! (unat x div 16),
                                  ''0123456789abcdef'' ! (unat x mod 16)]) b)"

definition standin_libs :: libs where
  "standin_libs =
     \<lparr>addFromUri = (\<lambda>uri. \<lparr>address = ''5'' @ uri\<rparr>),
      u8aToHex = hex_of_bytes,
      keccak256AsU8a = (\<lambda>m. take 32 (m @ replicate 32 0)),
      fromPrivateKey = (\<lambda>d opt.
        let c = (case opt of None \<Rightarrow> True | Some b \<Rightarrow> b)
        in \<lparr>privateKey = d, compressed = c,
            publicKey = (if c then 2 # take 32 (d @ replicate 32 0)
                         else 4 # take 64 (d @ d @ replicate 64 0))\<rparr>),
      sign = (\<lambda>kp h l. take 64 (privateKey kp @ h @ replicate 64 0))\<rparr>"

definition in_block :: "submittable_result list" where
  "in_block =
     [\<lparr>status = Ready, events = None\<rparr>,
      \<lparr>status = InBlock ''0xb10c'',
       events = Some [\<lparr>ev_section = ''system'', ev_method = ''ExtrinsicSuccess'',
                       ev_data = ''[]''\<rparr>]\<rparr>,
      \<lparr>status = Finalized ''0xb10c'', events = None\<rparr>]"

definition local_node :: world where
  "local_node =
     \<lparr>create = Resolves (), isReady = Resolves (), nextJobId = Resolves 7,
      signAndSend = (\<lambda>k. Resolves in_block),
      argv = [''ts-node'', ''src/playground.ts''], env = (\<lambda>x. None)\<rparr>"

definition rejecting_node :: world where
  "rejecting_node =
     local_node\<lparr>signAndSend :=
       (\<lambda>k. if k = 1 then Rejects (Error ''1010: Invalid Transaction'')
            else Resolves in_block)\<rparr>"

definition dropping_node :: world where
  "dropping_node =
     local_node\<lparr>signAndSend :=
       (\<lambda>k. if k = 2 then Resolves [\<lparr>status = Ready, events = None\<rparr>,
                                    \<lparr>status = Dropped, events = None\<rparr>]
            else Resolves in_block)\<rparr>"


text \<open>
  A node whose chain refuses Alice's profile when dispatching it (she has one already):
  the transaction is included in a block, with the failure among its events.
\<close>

definition failed_in_block :: "submittable_result list" where
  "failed_in_block =
     [\<lparr>status = Ready, events = None\<rparr>,
      \<lparr>status = InBlock ''0xb10c'',
       events = Some [\<lparr>ev_section = ''system'', ev_method = ''ExtrinsicFailed'',
                       ev_data = ''[{module:{index:40,error:0x00000000}}]''\<rparr>]\<rparr>]"

definition failing_chain :: world where
  "failing_chain =
     local_node\<lparr>signAndSend :=
       (\<lambda>k. if k = 0 then Resolves failed_in_block else Resolves in_block)\<rparr>"

subsection \<open>Traces and outcomes of the building blocks\<close>

lemma fst_bnd: "fst (bnd m f) = fst m @ (case snd m of Inl out \<Rightarrow> [] | Inr a \<Rightarrow> fst (f a))"
  by (simp add: bnd_def split: prod.splits sum.splits)

lemma snd_bnd: "snd (bnd m f) = (case snd m of Inl out \<Rightarrow> Inl out | Inr a \<Rightarrow> snd (f a))"
  by (simp add: bnd_def split: prod.splits sum.splits)

lemma fst_emit: "fst (emit a) = [a]" and snd_emit: "snd (emit a) = Inr ()"
  by (simp_all add: emit_def)

lemma fst_await: "fst (await p) = []"
  and snd_await: "snd (await p) =
    (case p of Resolves a \<Rightarrow> Inr a | Rejects e \<Rightarrow> Inl (Unhandled e) | Pending \<Rightarrow> Inl Suspended)"
  by (simp_all add: await_def split: promise.splits)

lemma fst_console_assert: "fst (console_assert ok msg) = (if ok then [] else [AssertionFailed msg])"
  and snd_console_assert: "snd (console_assert ok msg) = Inr ()"
  by (simp_all add: console_assert_def)

lemma fst_process_exit: "fst (process_exit c) = [Exit c]"
  and snd_process_exit: "snd (process_exit c) = Inl (Exited c)"
  by (simp_all add: process_exit_def)

lemmas proc_simps = fst_bnd snd_bnd fst_emit snd_emit fst_await snd_await
  fst_console_assert snd_console_assert fst_process_exit snd_process_exit

lemma snd_callback:
  "snd (callback name k us) =
     (if list_ex (\<lambda>r. isInBlock (status r)) us then Inr () else Inl Suspended)"
  by (induction us) (auto simp: isInBlock_def split: extrinsic_status.splits)

lemma fst_callback_none:
  "\<not> list_ex (\<lambda>r. isInBlock (status r)) us \<Longrightarrow> fst (callback name k us) = []"
  by (induction us) (auto simp: isInBlock_def split: extrinsic_status.splits)

lemma fst_callback_some:
  "list_ex (\<lambda>r. isInBlock (status r)) us \<Longrightarrow>
   \<exists>h es. fst (callback name k us) =
     Log [name @ '' Included at block hash'', h] # Log [name @ '' Events:'']
       # map event_line es @ [Unsub k]"
  by (induction us) (auto simp: isInBlock_def split: extrinsic_status.splits)

lemma snd_submit:
  "snd (submit w name k tx s) =
     (if included w k then Inr ()
      else Inl (case signAndSend w k of Rejects e \<Rightarrow> Unhandled e | _ \<Rightarrow> Suspended))"
  by (simp add: submit_def proc_simps included_def snd_callback split: promise.splits)

lemma fst_submit:
  "fst (submit w name k tx s) =
     SignAndSend k tx s #
       (case signAndSend w k of Resolves us \<Rightarrow> fst (callback name k us) | _ \<Rightarrow> [])"
  by (simp add: submit_def proc_simps split: promise.splits)

lemma sent_append: "sent (xs @ ys) = sent xs @ sent ys"
  by (induction xs rule: sent.induct) simp_all

lemma sent_event_lines: "sent (map event_line es) = []"
  by (induction es) (simp_all add: event_line_def)

lemma sent_callback: "sent (fst (callback name k us)) = []"
  by (induction us)
    (auto simp: sent_append sent_event_lines split: extrinsic_status.splits)

lemma sent_submit: "sent (fst (submit w name k tx s)) = [(k, tx, s)]"
  by (simp add: fst_submit sent_callback split: promise.splits)

lemma sent_trace:
  "sent (trace lib w) =
     (case nextJobId w of
        Resolves j \<Rightarrow>
          if reached w 0 then
            take (Suc (length (takeWhile (included w) [0, 1, 2]))) (plan lib j)
          else []
      | _ \<Rightarrow> [])"
  by (simp add: trace_def main_def proc_simps snd_submit sent_append sent_submit plan_def
      split: promise.splits)

subsection \<open>Signature construction\<close>

lemma Uint8Array_from_Array_from: "Uint8Array_from (Array_from b) = b"
  by (simp add: Uint8Array_from_def Array_from_def comp_def)

lemma length_array_store: "length (array_store a i x) = max (length a) (Suc i)"
  by (simp add: array_store_def)

lemma store_appends:
  "length b = i \<Longrightarrow> Uint8Array_from (array_store (Array_from b) i x) = b @ [word_of_int x]"
  by (simp add: array_store_def Uint8Array_from_def Array_from_def comp_def)

lemma v_28: "v = 28"
  by (simp add: v_def lowR_def)

lemma set_callback:
  "a \<in> set (fst (callback name k us)) \<Longrightarrow> a = Unsub k \<or> (\<exists>l. a = Log l)"
  by (induction us) (auto simp: event_line_def split: extrinsic_status.splits)

lemma set_submit:
  "a \<in> set (fst (submit w name k tx s)) \<Longrightarrow>
   a = SignAndSend k tx s \<or> a = Unsub k \<or> (\<exists>l. a = Log l)"
  by (auto simp: fst_submit split: promise.splits dest: set_callback)

lemma assertion_in_trace:
  "AssertionFailed msg \<in> set (trace lib w) \<Longrightarrow>
   length (signature1Array lib) \<noteq> 65 \<or> length (signature2Array lib) \<noteq> 65"
  by (auto simp: trace_def main_def proc_simps snd_submit
      split: promise.splits if_splits sum.splits dest: set_submit)

text \<open>
  Claim C5. Each of the two produced signatures is exactly 65 bytes long: when the
  signing function returns 64 bytes, writing the recovery byte at index 64 of the array
  made from them gives an array of length 65 (for both signatures, and for the byte
  arrays that are hex-encoded), the byte written is 28, and neither
  \<^verbatim>\<open>console.assert\<close> on the lengths reports a failure in any run.
\<close>

theorem signatures_65_bytes:
  assumes "\<forall>kp h l. length (sign lib kp h l) = 64"
  shows "length (signature1Array lib) = 65 \<and> length (signature2Array lib) = 65 \<and>
         length (Uint8Array_from (signature1Array lib)) = 65 \<and>
         length (Uint8Array_from (signature2Array lib)) = 65 \<and>
         signature1Array lib ! 64 = Some 28 \<and> signature2Array lib ! 64 = Some 28 \<and>
         AssertionFailed msg \<notin> set (trace lib w)"
proof -
  have l1: "length (signature1Array lib) = 65" and l2: "length (signature2Array lib) = 65"
    using assms
    by (simp_all add: signature1Array_def signature2Array_def length_array_store
        Array_from_def signature1_def signature2_def)
  have b1: "signature1Array lib ! 64 = Some 28" and b2: "signature2Array lib ! 64 = Some 28"
    using assms
    by (simp_all add: signature1Array_def signature2Array_def array_store_def v_28
        Array_from_def signature1_def signature2_def nth_append)
  have "AssertionFailed msg \<notin> set (trace lib w)"
    using assertion_in_trace [of msg lib w] l1 l2 by blast
  with l1 l2 b1 b2 show ?thesis
    by (simp add: Uint8Array_from_def)
qed

lemma standin_sign_64: "\<forall>kp h l. length (sign standin_libs kp h l) = 64"
  by (auto simp: standin_libs_def)

text \<open>
  The stand-in signing function returns 64 bytes; there the theorem gives the lengths
  and the silent assertions of a full run.
\<close>

theorem signatures_65_bytes_witness:
  "length (signature1Array standin_libs) = 65 \<and>
   length (Uint8Array_from (signature2Array standin_libs)) = 65 \<and>
   AssertionFailed ''Signature 1 length is invalid'' \<notin> set (trace standin_libs local_node)"
  using signatures_65_bytes [OF standin_sign_64, of "''Signature 1 length is invalid''" local_node]
  by simp

lemma sent_local_node:
  "sent (trace standin_libs local_node) = plan standin_libs 7"
  by (simp add: sent_trace local_node_def included_def in_block_def isInBlock_def plan_def)

lemma in_sent_iff: "(k, tx, s) \<in> set (sent tr) \<longleftrightarrow> SignAndSend k tx s \<in> set tr"
  by (induction tr rule: sent.induct) auto

lemma sent_in_plan:
  "x \<in> set (sent (trace lib w)) \<Longrightarrow> \<exists>j. nextJobId w = Resolves j \<and> x \<in> set (plan lib j)"
  by (auto simp: sent_trace split: promise.splits if_splits dest: in_set_takeD)

text \<open>
  Claim C1. The job result a run submits carries, for each of the two role key pairs,
  the hex encoding of: the signature that the role key pair makes of the hash of the
  generated DKG public key (64 bytes), followed by one recovery byte that is always 28.
  The key it carries is the hex encoding of that public key.
\<close>

theorem job_result_signatures:
  assumes sent: "SignAndSend k (submitJobResult r jobId res) signer \<in> set (trace lib w)"
    and len: "\<forall>kp h l. length (sign lib kp h l) = 64"
  shows "res =
     DKGPhaseOne (u8aToHex lib (publicKey (dkgKeyPair lib)))
       [u8aToHex lib
          (sign lib (ALICE_ROLE lib) (keccak256AsU8a lib (publicKey (dkgKeyPair lib))) False
             @ [28]),
        u8aToHex lib
          (sign lib (BOB_ROLE lib) (keccak256AsU8a lib (publicKey (dkgKeyPair lib))) False
             @ [28])]
       1 Ecdsa"
proof -
  from sent have "(k, submitJobResult r jobId res, signer) \<in> set (sent (trace lib w))"
    by (simp add: in_sent_iff)
  then obtain j where "(k, submitJobResult r jobId res, signer) \<in> set (plan lib j)"
    using sent_in_plan by blast
  then have res: "submitJobResult r jobId res = submittingJobResultTx lib j"
    by (auto simp: plan_def creatingProfileTx_def submittingJobTx_def)
  have s1: "Uint8Array_from (signature1Array lib) = signature1 lib @ [28]"
    using len by (simp add: signature1Array_def store_appends signature1_def v_28)
  have s2: "Uint8Array_from (signature2Array lib) = signature2 lib @ [28]"
    using len by (simp add: signature2Array_def store_appends signature2_def v_28)
  from res show ?thesis
    by (simp add: submittingJobResultTx_def s1 s2 signature1_def signature2_def
        dkgPublicKeyHash_def dkgPublicKey_def lowR_def)
qed

lemma result_sent_local_node:
  "SignAndSend 3 (submittingJobResultTx standin_libs 7) (ALICE standin_libs)
     \<in> set (trace standin_libs local_node)"
  by (simp add: in_sent_iff [symmetric] sent_local_node plan_def)

text \<open>
  The run against the node that includes everything submits the job result; the
  theorem gives its contents.
\<close>

theorem job_result_signatures_witness:
  "(\<forall>kp h l. length (sign standin_libs kp h l) = 64) \<and>
   SignAndSend 3 (submittingJobResultTx standin_libs 7) (ALICE standin_libs)
     \<in> set (trace standin_libs local_node) \<and>
   submittingJobResultTx standin_libs 7 =
     submitJobResult (Tss DfnsCGGMP21Secp256k1) 7
       (DKGPhaseOne (u8aToHex standin_libs (publicKey (dkgKeyPair standin_libs)))
          [u8aToHex standin_libs
             (sign standin_libs (ALICE_ROLE standin_libs)
                (keccak256AsU8a standin_libs (publicKey (dkgKeyPair standin_libs))) False
              @ [28]),
           u8aToHex standin_libs
             (sign standin_libs (BOB_ROLE standin_libs)
                (keccak256AsU8a standin_libs (publicKey (dkgKeyPair standin_libs))) False
              @ [28])]
          1 Ecdsa)"
proof -
  note m = result_sent_local_node
  have "submittingJobResultTx standin_libs 7 =
     submitJobResult (Tss DfnsCGGMP21Secp256k1) 7
       (DKGPhaseOne (u8aToHex standin_libs (publicKey (dkgKeyPair standin_libs)))
          [u8aToHex standin_libs
             (sign standin_libs (ALICE_ROLE standin_libs)
                (keccak256AsU8a standin_libs (publicKey (dkgKeyPair standin_libs))) False
              @ [28]),
           u8aToHex standin_libs
             (sign standin_libs (BOB_ROLE standin_libs)
                (keccak256AsU8a standin_libs (publicKey (dkgKeyPair standin_libs))) False
              @ [28])]
          1 Ecdsa)"
    using job_result_signatures [OF m [unfolded submittingJobResultTx_def] standin_sign_64]
    by (simp add: submittingJobResultTx_def)
  with m standin_sign_64 show ?thesis by blast
qed

lemma dkg_private_key:
  "Buffer_from_hex ''eec7245d6b7d2ccb30380bfbe2a3648cd7a942653f5aa340edcea1f283686619'' =
     [0xee, 0xc7, 0x24, 0x5d, 0x6b, 0x7d, 0x2c, 0xcb, 0x30, 0x38, 0x0b, 0xfb, 0xe2, 0xa3,
      0x64, 0x8c, 0xd7, 0xa9, 0x42, 0x65, 0x3f, 0x5a, 0xa3, 0x40, 0xed, 0xce, 0xa1, 0xf2,
      0x83, 0x68, 0x66, 0x19]"
  by (simp add: hexDigit_def)

lemma ALICE_ROLE_SEED_bytes:
  "ALICE_ROLE_SEED =
     [0xcb, 0x6d, 0xf9, 0xde, 0x1e, 0xfc, 0xa7, 0xa3, 0x99, 0x8a, 0x8e, 0xad, 0x4e, 0x02,
      0x15, 0x9d, 0x5f, 0xa9, 0x9c, 0x3e, 0x0d, 0x4f, 0xd6, 0x43, 0x26, 0x67, 0x39, 0x0b,
      0xb4, 0x72, 0x68, 0x54]"
  by (simp add: ALICE_ROLE_SEED_def hexDigit_def)

lemma BOB_ROLE_SEED_bytes:
  "BOB_ROLE_SEED =
     [0x79, 0xc3, 0xb7, 0xfc, 0x0b, 0x76, 0x97, 0xb9, 0x41, 0x4c, 0xb8, 0x7a, 0xdc, 0xb3,
      0x73, 0x17, 0xd1, 0xca, 0xb3, 0x28, 0x18, 0xae, 0x18, 0xc0, 0xe9, 0x7a, 0xd7, 0x63,
      0x95, 0xd1, 0xfd, 0xcf]"
  by (simp add: BOB_ROLE_SEED_def hexDigit_def)

lemma result_tx_in_plan:
  assumes "SignAndSend k (submitJobResult r jobId res) signer \<in> set (trace lib w)"
  shows "nextJobId w = Resolves jobId \<and> k = 3 \<and> signer = ALICE lib \<and>
         submitJobResult r jobId res = submittingJobResultTx lib jobId \<and>
         sent (trace lib w) = plan lib jobId"
proof -
  from assms have "(k, submitJobResult r jobId res, signer) \<in> set (sent (trace lib w))"
    by (simp add: in_sent_iff)
  then show ?thesis
    by (auto simp: sent_trace plan_def creatingProfileTx_def submittingJobTx_def
        submittingJobResultTx_def split: promise.splits if_splits)
qed

text \<open>
  Claim C10. The DKG key pair is made from a hard-coded private key with the option
  \<^verbatim>\<open>compressed: false\<close>. So, for a library that encodes public keys as SEC1 does
  (65 bytes with leading byte 4 when uncompressed, 33 bytes when compressed), the key
  the job result carries is the hex encoding of the 65-byte uncompressed public key, the
  digest both role keys sign is the hash of exactly these 65 bytes, and these bytes are
  no compressed public key.
\<close>

theorem dkg_key_uncompressed:
  assumes sent: "SignAndSend k (submitJobResult r jobId res) signer \<in> set (trace lib w)"
    and uncompressed: "\<forall>d. length (publicKey (fromPrivateKey lib d (Some False))) = 65 \<and>
            hd (publicKey (fromPrivateKey lib d (Some False))) = 4"
    and compressed: "\<forall>d. length (publicKey (fromPrivateKey lib d (Some True))) = 33 \<and>
            length (publicKey (fromPrivateKey lib d None)) = 33"
  shows "dkgKeyPair lib =
           fromPrivateKey lib
             [0xee, 0xc7, 0x24, 0x5d, 0x6b, 0x7d, 0x2c, 0xcb, 0x30, 0x38, 0x0b, 0xfb, 0xe2,
              0xa3, 0x64, 0x8c, 0xd7, 0xa9, 0x42, 0x65, 0x3f, 0x5a, 0xa3, 0x40, 0xed, 0xce,
              0xa1, 0xf2, 0x83, 0x68, 0x66, 0x19]
             (Some False) \<and>
         key res = u8aToHex lib (publicKey (dkgKeyPair lib)) \<and>
         length (publicKey (dkgKeyPair lib)) = 65 \<and>
         hd (publicKey (dkgKeyPair lib)) = 4 \<and>
         signature1 lib =
           sign lib (ALICE_ROLE lib) (keccak256AsU8a lib (publicKey (dkgKeyPair lib))) False \<and>
         signature2 lib =
           sign lib (BOB_ROLE lib) (keccak256AsU8a lib (publicKey (dkgKeyPair lib))) False \<and>
         signatures res =
           [u8aToHex lib (Uint8Array_from (array_store (Array_from (signature1 lib)) 64 28)),
            u8aToHex lib (Uint8Array_from (array_store (Array_from (signature2 lib)) 64 28))] \<and>
         publicKey (dkgKeyPair lib) \<noteq> publicKey (fromPrivateKey lib d (Some True)) \<and>
         publicKey (dkgKeyPair lib) \<noteq> publicKey (fromPrivateKey lib d None)"
proof -
  have kp: "dkgKeyPair lib =
           fromPrivateKey lib
             [0xee, 0xc7, 0x24, 0x5d, 0x6b, 0x7d, 0x2c, 0xcb, 0x30, 0x38, 0x0b, 0xfb, 0xe2,
              0xa3, 0x64, 0x8c, 0xd7, 0xa9, 0x42, 0x65, 0x3f, 0x5a, 0xa3, 0x40, 0xed, 0xce,
              0xa1, 0xf2, 0x83, 0x68, 0x66, 0x19]
             (Some False)"
    unfolding dkgKeyPair_def dkg_private_key ..
  have len: "length (publicKey (dkgKeyPair lib)) = 65" and hd: "hd (publicKey (dkgKeyPair lib)) = 4"
    using uncompressed by (simp_all add: dkgKeyPair_def)
  have ne: "publicKey (dkgKeyPair lib) \<noteq> publicKey (fromPrivateKey lib d (Some True))"
    "publicKey (dkgKeyPair lib) \<noteq> publicKey (fromPrivateKey lib d None)"
  proof -
    have "length (publicKey (fromPrivateKey lib d (Some True))) = 33"
      "length (publicKey (fromPrivateKey lib d None)) = 33"
      using compressed by simp_all
    with len show "publicKey (dkgKeyPair lib) \<noteq> publicKey (fromPrivateKey lib d (Some True))"
      "publicKey (dkgKeyPair lib) \<noteq> publicKey (fromPrivateKey lib d None)"
      by auto
  qed
  from result_tx_in_plan [OF sent]
  have "submitJobResult r jobId res = submittingJobResultTx lib jobId"
    by simp
  then have res: "key res = u8aToHex lib (publicKey (dkgKeyPair lib))"
    "signatures res =
           [u8aToHex lib (Uint8Array_from (array_store (Array_from (signature1 lib)) 64 28)),
            u8aToHex lib (Uint8Array_from (array_store (Array_from (signature2 lib)) 64 28))]"
    by (auto simp: submittingJobResultTx_def dkgPublicKey_def signature1Array_def
        signature2Array_def v_28)
  have sg: "signature1 lib =
           sign lib (ALICE_ROLE lib) (keccak256AsU8a lib (publicKey (dkgKeyPair lib))) False"
    "signature2 lib =
           sign lib (BOB_ROLE lib) (keccak256AsU8a lib (publicKey (dkgKeyPair lib))) False"
    by (simp_all add: signature1_def signature2_def dkgPublicKeyHash_def dkgPublicKey_def
        lowR_def)
  from kp len hd ne res sg show ?thesis by blast
qed

lemma standin_uncompressed:
  "\<forall>d. length (publicKey (fromPrivateKey standin_libs d (Some False))) = 65 \<and>
       hd (publicKey (fromPrivateKey standin_libs d (Some False))) = 4"
  by (auto simp: standin_libs_def)

lemma standin_compressed:
  "\<forall>d. length (publicKey (fromPrivateKey standin_libs d (Some True))) = 33 \<and>
       length (publicKey (fromPrivateKey standin_libs d None)) = 33"
  by (auto simp: standin_libs_def)

text \<open>
  The stand-in library encodes public keys in the SEC1 shapes, and the run against the
  node that includes everything submits the job result.
\<close>

theorem dkg_key_uncompressed_witness:
  "SignAndSend 3 (submittingJobResultTx standin_libs 7) (ALICE standin_libs)
     \<in> set (trace standin_libs local_node) \<and>
   length (publicKey (dkgKeyPair standin_libs)) = 65 \<and>
   hd (publicKey (dkgKeyPair standin_libs)) = 4 \<and>
   signature1 standin_libs =
     sign standin_libs (ALICE_ROLE standin_libs)
       (keccak256AsU8a standin_libs (publicKey (dkgKeyPair standin_libs))) False \<and>
   publicKey (dkgKeyPair standin_libs) \<noteq> publicKey (fromPrivateKey standin_libs [] None)"
  using dkg_key_uncompressed [OF result_sent_local_node [unfolded submittingJobResultTx_def]
      standin_uncompressed standin_compressed, of "[]"]
    result_sent_local_node
  by blast

subsection \<open>The submitted calls\<close>

lemma main_ignores_process: "main lib (w\<lparr>argv := a, env := e\<rparr>) = main lib w"
  by (simp add: main_def submit_def)

lemma profile_tx_in_plan:
  assumes "SignAndSend k (createProfile p n) signer \<in> set (trace lib w)"
  shows "createProfile p n = creatingProfileTx \<and>
         (k = 0 \<and> signer = ALICE lib \<or> k = 1 \<and> signer = BOB lib)"
proof -
  from assms have "(k, createProfile p n, signer) \<in> set (sent (trace lib w))"
    by (simp add: in_sent_iff)
  then obtain j where "(k, createProfile p n, signer) \<in> set (plan lib j)"
    using sent_in_plan by blast
  then show ?thesis
    by (auto simp: plan_def submittingJobTx_def submittingJobResultTx_def)
qed

lemma job_tx_in_plan:
  assumes "SignAndSend k (submitJob job) signer \<in> set (trace lib w)"
  shows "submitJob job = submittingJobTx lib \<and> k = 2 \<and> signer = ALICE lib"
proof -
  from assms have "(k, submitJob job, signer) \<in> set (sent (trace lib w))"
    by (simp add: in_sent_iff)
  then obtain j where "(k, submitJob job, signer) \<in> set (plan lib j)"
    using sent_in_plan by blast
  then show ?thesis
    by (auto simp: plan_def creatingProfileTx_def submittingJobResultTx_def)
qed

lemma sent_reached:
  "reached w (Suc k) \<Longrightarrow> k < 4 \<Longrightarrow> nextJobId w = Resolves j \<Longrightarrow>
   take (Suc k) (plan lib j) = take (Suc k) (sent (trace lib w))"
  by (auto simp: sent_trace plan_def less_Suc_eq numeral_eq_Suc)

text \<open>
  Claim C9. Both profile-creation submissions use one and the same call: every
  \<^verbatim>\<open>createProfile\<close> call a run submits is \<^verbatim>\<open>creatingProfileTx\<close>, the shared
  profile with the single record of role \<^verbatim>\<open>Tss.DfnsCGGMP21Secp256k1\<close>, the amount
  \<^verbatim>\<open>"10000000000000000000"\<close> and the second argument 10; it is submitted as
  submission 0 signed by Alice or as submission 1 signed by Bob. A run in which the first
  one is included submits both, and they differ in the signer only.
\<close>

theorem profile_calls_identical:
  "(SignAndSend k (createProfile p n) signer \<in> set (trace lib w) \<longrightarrow>
      createProfile p n = creatingProfileTx \<and>
      p = Shared [\<lparr>role = Tss DfnsCGGMP21Secp256k1\<rparr>] ''10000000000000000000'' \<and> n = 10 \<and>
      (k = 0 \<and> signer = ALICE lib \<or> k = 1 \<and> signer = BOB lib)) \<and>
   (reached w 1 \<longrightarrow>
      take 2 (sent (trace lib w)) =
        [(0, creatingProfileTx, ALICE lib), (1, creatingProfileTx, BOB lib)])"
proof -
  have "reached w 1 \<Longrightarrow> take 2 (sent (trace lib w)) =
        [(0, creatingProfileTx, ALICE lib), (1, creatingProfileTx, BOB lib)]"
    by (auto simp: sent_trace plan_def split: promise.splits)
  moreover have "SignAndSend k (createProfile p n) signer \<in> set (trace lib w) \<Longrightarrow>
      createProfile p n = creatingProfileTx \<and>
      p = Shared [\<lparr>role = Tss DfnsCGGMP21Secp256k1\<rparr>] ''10000000000000000000'' \<and> n = 10 \<and>
      (k = 0 \<and> signer = ALICE lib \<or> k = 1 \<and> signer = BOB lib)"
    using profile_tx_in_plan [of k p n signer lib w]
    by (auto simp: creatingProfileTx_def)
  ultimately show ?thesis by blast
qed

lemma reached_local_node: "reached local_node k"
  by (induction k) (simp_all add: local_node_def included_def in_block_def isInBlock_def)

text \<open>
  The run against the node that includes everything submits both profile
  transactions.
\<close>

theorem profile_calls_identical_witness:
  "SignAndSend 1 creatingProfileTx (BOB standin_libs) \<in> set (trace standin_libs local_node) \<and>
   reached local_node 1 \<and>
   take 2 (sent (trace standin_libs local_node)) =
     [(0, creatingProfileTx, ALICE standin_libs), (1, creatingProfileTx, BOB standin_libs)]"
proof -
  have m: "SignAndSend 1 creatingProfileTx (BOB standin_libs) \<in> set (trace standin_libs local_node)"
    by (simp add: in_sent_iff [symmetric] sent_local_node plan_def)
  show ?thesis
    using profile_calls_identical [of 1 _ _ "BOB standin_libs" standin_libs local_node]
      m reached_local_node [of 1]
    by blast
qed

text \<open>
  Claim C6. The job a run submits is the two-party key-generation task with literal
  parameters: the participants are the addresses of the \<^verbatim>\<open>//Alice\<close> and \<^verbatim>\<open>//Bob\<close>
  key pairs, the threshold is 1, the permitted caller is null, expiry and ttl are 100.
  Nothing the node answers and nothing in the arguments or the environment of the
  process enters it: changing the latter two leaves the whole trace unchanged.
\<close>

theorem job_parameters_fixed:
  assumes "SignAndSend k (submitJob job) signer \<in> set (trace lib w)"
  shows "job =
           \<lparr>expiry = 100, ttl = 100,
            jobType = DkgtssPhaseOne
              [address (addFromUri lib ''//Alice''), address (addFromUri lib ''//Bob'')]
              1 None DfnsCGGMP21Secp256k1\<rparr> \<and>
         k = 2 \<and> signer = addFromUri lib ''//Alice'' \<and>
         trace lib (w\<lparr>argv := a, env := e\<rparr>) = trace lib w"
  using job_tx_in_plan [OF assms]
  by (simp add: submittingJobTx_def ALICE_def BOB_def trace_def main_ignores_process)

text \<open>
  The run against the node that includes everything submits the job; command-line
  arguments and environment variables that name another threshold change nothing.
\<close>

theorem job_parameters_fixed_witness:
  "SignAndSend 2 (submittingJobTx standin_libs) (ALICE standin_libs)
     \<in> set (trace standin_libs local_node) \<and>
   submittingJobTx standin_libs =
     submitJob \<lparr>expiry = 100, ttl = 100,
       jobType = DkgtssPhaseOne [''5//Alice'', ''5//Bob''] 1 None DfnsCGGMP21Secp256k1\<rparr> \<and>
   trace standin_libs (local_node\<lparr>argv := [''--threshold'', ''2''],
       env := (\<lambda>x. Some ''2'')\<rparr>) = trace standin_libs local_node"
proof -
  have m: "SignAndSend 2 (submittingJobTx standin_libs) (ALICE standin_libs)
     \<in> set (trace standin_libs local_node)"
    by (simp add: in_sent_iff [symmetric] sent_local_node plan_def)
  show ?thesis
    using job_parameters_fixed [OF m [unfolded submittingJobTx_def],
        where a = "[''--threshold'', ''2'']" and e = "\<lambda>x. Some ''2''"] m
    by (simp add: submittingJobTx_def ALICE_def BOB_def standin_libs_def)
qed

subsection \<open>The job identifier and the order of submissions\<close>






lemma in_flight_append: "in_flight (xs @ ys) = foldl flight (in_flight xs) ys"
  by (simp add: in_flight_def)

lemma flight_lines: "foldl flight fl (map event_line es) = fl"
  by (induction es) (simp_all add: event_line_def)

lemma quiet_bnd:
  assumes m: "quiet m" and f: "\<And>a. quiet (f a)"
  shows "quiet (bnd m f)"
proof (cases "snd m")
  case (Inl out)
  with m show ?thesis
    by (simp add: quiet_def proc_simps)
next
  case (Inr a)
  have idle: "in_flight (fst m) = []"
    using m Inr by (simp add: quiet_def)
  have "length (in_flight (take n (fst m @ fst (f a)))) \<le> 1" for n
  proof (cases "n \<le> length (fst m)")
    case True
    with m show ?thesis by (simp add: quiet_def)
  next
    case False
    then have "in_flight (take n (fst m @ fst (f a))) =
        in_flight (take (n - length (fst m)) (fst (f a)))"
      by (simp add: in_flight_append idle) (simp add: in_flight_def)
    with f [of a] show ?thesis by (simp add: quiet_def)
  qed
  moreover have "in_flight (fst m @ fst (f a)) = []" if "snd (f a) = Inr b" for b
    using f [of a] that by (simp add: in_flight_append idle quiet_def) (simp add: in_flight_def)
  ultimately show ?thesis
    using Inr by (simp add: quiet_def proc_simps)
qed

lemma quiet_emit: "flight [] a = [] \<Longrightarrow> quiet (emit a)"
  by (simp add: quiet_def proc_simps in_flight_def take_Cons')

lemma quiet_await: "quiet (await p)"
  by (simp add: quiet_def proc_simps in_flight_def)

lemma quiet_console_assert: "quiet (console_assert ok msg)"
  by (simp add: quiet_def proc_simps in_flight_def take_Cons')

lemma quiet_process_exit: "quiet (process_exit c)"
  by (simp add: quiet_def proc_simps in_flight_def take_Cons')

lemma quiet_callback_round:
  "length (in_flight (take n
     (SignAndSend k tx s # Log a # Log b # map event_line es @ [Unsub k]))) \<le> 1"
  by (simp add: in_flight_def take_Cons' take_map flight_lines)

lemma quiet_submit: "quiet (submit w name k tx s)"
proof (cases "included w k")
  case True
  then obtain us where us: "signAndSend w k = Resolves us"
    "list_ex (\<lambda>r. isInBlock (status r)) us"
    by (auto simp: included_def split: promise.splits)
  from fst_callback_some [OF us(2), of name k] obtain h es where
    "fst (callback name k us) =
       Log [name @ '' Included at block hash'', h] # Log [name @ '' Events:'']
         # map event_line es @ [Unsub k]"
    by blast
  then have tr: "fst (submit w name k tx s) =
       SignAndSend k tx s # Log [name @ '' Included at block hash'', h]
         # Log [name @ '' Events:''] # map event_line es @ [Unsub k]"
    by (simp add: fst_submit us)
  have a: "\<forall>n. length (in_flight (take n (fst (submit w name k tx s)))) \<le> 1"
    unfolding tr using quiet_callback_round by blast
  have b: "in_flight (fst (submit w name k tx s)) = []"
    unfolding tr by (simp add: in_flight_def flight_lines)
  from a b show ?thesis
    by (simp add: quiet_def)
next
  case False
  then have "fst (submit w name k tx s) = [SignAndSend k tx s]"
    by (auto simp: fst_submit included_def fst_callback_none split: promise.splits)
  with False show ?thesis
    by (simp add: quiet_def snd_submit in_flight_def take_Cons')
qed

lemma quiet_main: "quiet (main lib w)"
  unfolding main_def
  by (intro quiet_bnd quiet_emit quiet_await quiet_console_assert quiet_process_exit
      quiet_submit) simp_all

lemma sent_order:
  "map fst (sent (trace lib w)) = [0..<length (sent (trace lib w))] \<and>
   length (sent (trace lib w)) \<le> 4"
  by (auto simp: sent_trace plan_def upt_rec split: promise.splits)

lemma sent_after_included:
  "(Suc k, tx, s) \<in> set (sent (trace lib w)) \<Longrightarrow> included w k"
  by (auto simp: sent_trace plan_def split: promise.splits if_splits)

text \<open>
  Claim C3. Submissions are strictly sequential. After every prefix of the trace of
  every run at most one submission is in flight; the submissions are numbered 0, 1, 2,
  3 in this order and there are at most four; and a submission after the first happens
  only when the node reported the one before it as included, at a moment when nothing
  is in flight.
\<close>

theorem submissions_sequential:
  "length (in_flight (take n (trace lib w))) \<le> 1 \<and>
   map fst (sent (trace lib w)) = [0..<length (sent (trace lib w))] \<and>
   length (sent (trace lib w)) \<le> 4 \<and>
   (SignAndSend (Suc k) tx s \<in> set (trace lib w) \<longrightarrow>
      included w k \<and>
      (\<forall>pre post. trace lib w = pre @ SignAndSend (Suc k) tx s # post \<longrightarrow> in_flight pre = []))"
proof -
  have q: "length (in_flight (take m (trace lib w))) \<le> 1" for m
    using quiet_main [of lib w] by (simp add: quiet_def trace_def)
  have "in_flight pre = []" if t: "trace lib w = pre @ SignAndSend (Suc k) tx s # post"
    for pre post
  proof -
    have "take (Suc (length pre)) (trace lib w) = pre @ [SignAndSend (Suc k) tx s]"
      by (simp add: t)
    with q [of "Suc (length pre)"] have "length (Suc k # in_flight pre) \<le> 1"
      by (simp add: in_flight_append)
    then show ?thesis by simp
  qed
  with q [of n] sent_order [of lib w] sent_after_included [of k tx s lib w]
  show ?thesis
    by (simp add: in_sent_iff)
qed

text \<open>
  In the run against the node that includes everything the job result is submitted
  fourth, after the job submission was included.
\<close>

theorem submissions_sequential_witness:
  "SignAndSend (Suc 2) (submittingJobResultTx standin_libs 7) (ALICE standin_libs)
     \<in> set (trace standin_libs local_node) \<and>
   included local_node 2 \<and>
   length (in_flight (take 12 (trace standin_libs local_node))) \<le> 1 \<and>
   map fst (sent (trace standin_libs local_node)) = [0, 1, 2, 3]"
proof -
  have m: "SignAndSend (Suc 2) (submittingJobResultTx standin_libs 7) (ALICE standin_libs)
     \<in> set (trace standin_libs local_node)"
    using result_sent_local_node by (simp add: numeral_3_eq_3)
  have "map fst (sent (trace standin_libs local_node)) = [0, 1, 2, 3]"
    by (simp add: sent_local_node plan_def)
  with m submissions_sequential [of 12 standin_libs local_node 2
      "submittingJobResultTx standin_libs 7" "ALICE standin_libs"]
  show ?thesis
    by simp
qed

subsection \<open>How a run ends\<close>

lemma result_main:
  "result lib w =
     Inl (if reached w 4 then Exited 0
          else case create w of Rejects e \<Rightarrow> Unhandled e | Pending \<Rightarrow> Suspended
          | Resolves u \<Rightarrow>
          (case isReady w of Rejects e \<Rightarrow> Unhandled e | Pending \<Rightarrow> Suspended
          | Resolves u \<Rightarrow>
          (case nextJobId w of Rejects e \<Rightarrow> Unhandled e | Pending \<Rightarrow> Suspended
          | Resolves j \<Rightarrow>
          (case signAndSend w (length (takeWhile (included w) [0, 1, 2, 3])) of
             Rejects e \<Rightarrow> Unhandled e | _ \<Rightarrow> Suspended))))"
  by (simp add: result_def main_def proc_simps snd_submit numeral_eq_Suc
      split: promise.splits)

lemma exits_append: "exits (xs @ ys) = exits xs @ exits ys"
  by (induction xs rule: exits.induct) simp_all

lemma in_exits_iff: "c \<in> set (exits tr) \<longleftrightarrow> Exit c \<in> set tr"
  by (induction tr rule: exits.induct) auto

lemma exits_event_lines: "exits (map event_line es) = []"
  by (induction es) (simp_all add: event_line_def)

lemma exits_callback: "exits (fst (callback name k us)) = []"
  by (induction us)
    (auto simp: exits_append exits_event_lines split: extrinsic_status.splits)

lemma exits_submit: "exits (fst (submit w name k tx s)) = []"
  by (simp add: fst_submit exits_callback split: promise.splits)

lemma exits_trace: "exits (trace lib w) = (if reached w 4 then [0] else [])"
  by (simp add: trace_def main_def proc_simps snd_submit exits_append exits_submit
      numeral_eq_Suc split: promise.splits)

lemma exit_in_trace:
  "Exit c \<in> set (trace lib w) \<Longrightarrow> c = 0 \<and> reached w 4"
  using in_exits_iff [of c "trace lib w"]
  by (simp add: exits_trace split: if_splits)

lemma last_submit:
  "included w k \<Longrightarrow>
   last (fst (submit w name k tx s)) = Unsub k \<and> fst (submit w name k tx s) \<noteq> []"
proof -
  assume "included w k"
  then obtain us where us: "signAndSend w k = Resolves us"
    "list_ex (\<lambda>r. isInBlock (status r)) us"
    by (auto simp: included_def split: promise.splits)
  from fst_callback_some [OF us(2), of name k] show ?thesis
    by (auto simp: fst_submit us)
qed

lemma trace_end:
  assumes "reached w 4"
  shows "last (trace lib w) = Exit 0 \<and> last (butlast (trace lib w)) = Unsub 3 \<and>
         Exit c \<notin> set (butlast (trace lib w))"
proof -
  from assms have inc: "included w 3" and r: "reached w 3"
    by (simp_all add: numeral_eq_Suc)
  from assms obtain j where j: "nextJobId w = Resolves j"
    by (auto simp: numeral_eq_Suc split: promise.splits)
  define body where "body = butlast (trace lib w)"
  have t: "trace lib w = body @ [Exit 0]"
    using assms j unfolding body_def
    by (simp add: trace_def main_def proc_simps snd_submit numeral_eq_Suc butlast_append)
  have "\<exists>pre. body = pre @ fst (submit w ''[submittingJobResultTx]'' 3
      (submittingJobResultTx lib j) (ALICE lib))"
    using assms j unfolding body_def
    by (simp add: trace_def main_def proc_simps snd_submit numeral_eq_Suc butlast_append)
  then have l: "last body = Unsub 3"
    using last_submit [OF inc] by auto
  have "exits body = []"
    using exits_trace [of lib w] assms by (simp add: t exits_append)
  then have "Exit c \<notin> set body"
    using in_exits_iff [of c body] by simp
  moreover have "last (trace lib w) = Exit 0"
    by (subst t) simp
  ultimately show ?thesis
    using l by (simp add: body_def)
qed

text \<open>
  Claim C7. A run ends by \<^verbatim>\<open>process.exit(0)\<close> exactly when the connection, the
  readiness promise and the query resolved and all four transactions were reported
  included; the exit is then the last action, it comes right after the script has
  observed the inclusion of the job result (submission 3) and unsubscribed, and there
  is no other exit. The procedure never returns without exiting, and a run that does
  not get that far never exits.
\<close>

theorem exit_after_last_inclusion:
  "result lib w \<noteq> Inr u \<and>
   (result lib w = Inl (Exited c) \<longleftrightarrow> c = 0 \<and> reached w 4) \<and>
   (reached w 4 \<longrightarrow>
      last (trace lib w) = Exit 0 \<and> last (butlast (trace lib w)) = Unsub 3 \<and>
      Exit c' \<notin> set (butlast (trace lib w))) \<and>
   (\<not> reached w 4 \<longrightarrow> Exit c' \<notin> set (trace lib w))"
proof -
  have "result lib w \<noteq> Inr u"
    by (simp add: result_main)
  moreover have "result lib w = Inl (Exited c) \<longleftrightarrow> c = 0 \<and> reached w 4"
    by (auto simp: result_main split: promise.splits)
  moreover have "\<not> reached w 4 \<longrightarrow> Exit c' \<notin> set (trace lib w)"
    using exit_in_trace by blast
  ultimately show ?thesis
    using trace_end [of w lib c'] by blast
qed

text \<open>
  The run against the node that includes everything exits with status 0 right after
  the last inclusion; the run against the node that drops the job submission never
  exits.
\<close>

theorem exit_after_last_inclusion_witness:
  "reached local_node 4 \<and> result standin_libs local_node = Inl (Exited 0) \<and>
   last (trace standin_libs local_node) = Exit 0 \<and>
   last (butlast (trace standin_libs local_node)) = Unsub 3 \<and>
   \<not> reached dropping_node 4 \<and> Exit 0 \<notin> set (trace standin_libs dropping_node)"
proof -
  have "\<not> reached dropping_node 4"
    by (simp add: numeral_eq_Suc dropping_node_def local_node_def included_def isInBlock_def)
  with reached_local_node [of 4]
    exit_after_last_inclusion [of standin_libs local_node _ 0 0]
    exit_after_last_inclusion [of standin_libs dropping_node _ 0 0]
  show ?thesis
    by blast
qed

lemma fst_submit_stuck:
  "\<not> included w k \<Longrightarrow> fst (submit w name k tx s) = [SignAndSend k tx s]"
  by (auto simp: fst_submit included_def fst_callback_none split: promise.splits)

lemma less_4_cases: "k < 4 \<Longrightarrow> k = 0 \<or> k = 1 \<or> k = 2 \<or> k = (3 :: nat)"
  by arith

lemma stuck_at:
  assumes "k < 4" "reached w k" "\<not> included w k"
  shows "result lib w =
           Inl (case signAndSend w k of Rejects e \<Rightarrow> Unhandled e | _ \<Rightarrow> Suspended) \<and>
         map fst (sent (trace lib w)) = [0..<Suc k] \<and>
         (\<exists>tx s. last (trace lib w) = SignAndSend k tx s)"
proof -
  from assms(2) obtain j where j: "nextJobId w = Resolves j"
    and r0: "create w = Resolves ()" "isReady w = Resolves ()"
    by (induction k) (auto split: promise.splits)
  from less_4_cases [OF assms(1)] show ?thesis
  proof (elim disjE)
    assume "k = 0"
    with assms j r0 show ?thesis
      by (simp add: result_def trace_def main_def proc_simps snd_submit sent_append
          sent_submit fst_submit_stuck)
  next
    assume "k = 1"
    with assms j r0 show ?thesis
      by (simp add: result_def trace_def main_def proc_simps snd_submit sent_append
          sent_submit fst_submit_stuck)
  next
    assume "k = 2"
    with assms j r0 show ?thesis
      by (simp add: result_def trace_def main_def proc_simps snd_submit sent_append
          sent_submit fst_submit_stuck numeral_eq_Suc)
  next
    assume "k = 3"
    with assms j r0 show ?thesis
      by (simp add: result_def trace_def main_def proc_simps snd_submit sent_append
          sent_submit fst_submit_stuck numeral_eq_Suc)
  qed
qed

subsection \<open>Failures\<close>

lemma included_with_events: "included (with_events f w) k = included w k"
  by (simp add: included_def with_events_def list_ex_iff split: promise.splits)

lemma reached_with_events: "reached (with_events f w) k = reached w k"
  by (induction k) (simp_all add: included_with_events, simp add: with_events_def)

lemma rejects_with_events:
  "(case signAndSend (with_events f w) k of Rejects e \<Rightarrow> Unhandled e | _ \<Rightarrow> Suspended) =
   (case signAndSend w k of Rejects e \<Rightarrow> Unhandled e | _ \<Rightarrow> Suspended)"
  by (simp add: with_events_def split: promise.splits)

lemma takeWhile_included_with_events:
  "takeWhile (included (with_events f w)) ks = takeWhile (included w) ks"
  by (induction ks) (simp_all add: included_with_events)

lemma result_with_events: "result lib (with_events f w) = result lib w"
proof -
  have c: "create (with_events f w) = create w" "isReady (with_events f w) = isReady w"
    "nextJobId (with_events f w) = nextJobId w"
    by (simp_all add: with_events_def)
  show ?thesis
    unfolding result_main [of lib "with_events f w"] result_main [of lib w]
      reached_with_events takeWhile_included_with_events rejects_with_events c ..
qed

lemma sent_with_events: "sent (trace lib (with_events f w)) = sent (trace lib w)"
proof -
  have c: "nextJobId (with_events f w) = nextJobId w"
    by (simp add: with_events_def)
  show ?thesis
    unfolding sent_trace [of lib "with_events f w"] sent_trace [of lib w]
      reached_with_events takeWhile_included_with_events c ..
qed

lemma callback_prints:
  "find (\<lambda>r. isInBlock (status r)) us = Some r \<Longrightarrow> events r = Some es \<Longrightarrow>
   e \<in> set es \<Longrightarrow> event_line e \<in> set (fst (callback name k us))"
  by (induction us) (auto simp: isInBlock_def split: extrinsic_status.splits if_splits)

lemma submit_in_trace:
  assumes "k < 4" "reached w k"
  shows "\<exists>name tx s. set (fst (submit w name k tx s)) \<subseteq> set (trace lib w)"
proof -
  from assms(2) obtain j where j: "nextJobId w = Resolves j"
    and r0: "create w = Resolves ()" "isReady w = Resolves ()"
    by (induction k) (auto split: promise.splits)
  from less_4_cases [OF assms(1)] show ?thesis
  proof (elim disjE)
    assume "k = 0"
    with assms j r0 have "set (fst (submit w ''[creatingProfileTx]'' 0 creatingProfileTx
        (ALICE lib))) \<subseteq> set (trace lib w)"
      by (auto simp: trace_def main_def proc_simps)
    with \<open>k = 0\<close> show ?thesis by blast
  next
    assume "k = 1"
    with assms j r0 have "set (fst (submit w ''[creatingProfileTx]'' 1 creatingProfileTx
        (BOB lib))) \<subseteq> set (trace lib w)"
      by (auto simp: trace_def main_def proc_simps snd_submit)
    with \<open>k = 1\<close> show ?thesis by blast
  next
    assume "k = 2"
    with assms j r0 have "set (fst (submit w ''[submittingJobTx]'' 2 (submittingJobTx lib)
        (ALICE lib))) \<subseteq> set (trace lib w)"
      by (auto simp: trace_def main_def proc_simps snd_submit numeral_eq_Suc)
    with \<open>k = 2\<close> show ?thesis by blast
  next
    assume "k = 3"
    with assms j r0 have "set (fst (submit w ''[submittingJobResultTx]'' 3
        (submittingJobResultTx lib j) (ALICE lib))) \<subseteq> set (trace lib w)"
      by (auto simp: trace_def main_def proc_simps snd_submit numeral_eq_Suc)
    with \<open>k = 3\<close> show ?thesis by blast
  qed
qed

lemma events_printed:
  assumes "k < 4" "reached w k" "signAndSend w k = Resolves us"
    "find (\<lambda>r. isInBlock (status r)) us = Some r" "events r = Some es" "e \<in> set es"
  shows "event_line e \<in> set (trace lib w)"
proof -
  from submit_in_trace [OF assms(1,2), of lib] obtain name tx s where
    sub: "set (fst (submit w name k tx s)) \<subseteq> set (trace lib w)"
    by blast
  have "event_line e \<in> set (fst (callback name k us))"
    using callback_prints [OF assms(4,5,6)] .
  then have "event_line e \<in> set (fst (submit w name k tx s))"
    by (simp add: fst_submit assms(3))
  with sub show ?thesis by blast
qed

text \<open>
  Claim C8, as amended. No failure is handled: nothing is caught, retried or timed out.
  When the promise of the connection, of readiness or of the query, or a
  \<^verbatim>\<open>signAndSend\<close> the run gets to, rejects, the run ends with that rejection
  unhandled, and the failed call is the last thing the script does. When one of them
  never settles, or the status updates of a submission never report inclusion in a
  block, the flow stays suspended for ever at that call. What the chain reports in the
  events of an included transaction, a failed dispatch among them, is printed and has
  no other effect: the outcome and the submissions of the run are the same whatever
  the events are. A run that does not end with exit status 0 never exits: it ends
  suspended or with an unhandled rejection.
\<close>

theorem failures_not_handled:
  "(create w = Rejects e \<longrightarrow>
      result lib w = Inl (Unhandled e) \<and> trace lib w = [Connect ''ws://127.0.0.1:9944'']) \<and>
   (create w = Pending \<longrightarrow>
      result lib w = Inl Suspended \<and> trace lib w = [Connect ''ws://127.0.0.1:9944'']) \<and>
   (create w = Resolves () \<and> isReady w = Rejects e \<longrightarrow>
      result lib w = Inl (Unhandled e) \<and> trace lib w = [Connect ''ws://127.0.0.1:9944'']) \<and>
   (create w = Resolves () \<and> isReady w = Pending \<longrightarrow>
      result lib w = Inl Suspended \<and> trace lib w = [Connect ''ws://127.0.0.1:9944'']) \<and>
   (create w = Resolves () \<and> isReady w = Resolves () \<and> nextJobId w = Rejects e \<longrightarrow>
      result lib w = Inl (Unhandled e) \<and>
      trace lib w = preamble lib @ [Query ''jobs.nextJobId'']) \<and>
   (create w = Resolves () \<and> isReady w = Resolves () \<and> nextJobId w = Pending \<longrightarrow>
      result lib w = Inl Suspended \<and>
      trace lib w = preamble lib @ [Query ''jobs.nextJobId'']) \<and>
   (k < 4 \<and> reached w k \<and> signAndSend w k = Rejects e \<longrightarrow>
      result lib w = Inl (Unhandled e) \<and>
      map fst (sent (trace lib w)) = [0..<Suc k] \<and>
      (\<exists>tx s. last (trace lib w) = SignAndSend k tx s)) \<and>
   (k < 4 \<and> reached w k \<and> signAndSend w k = Pending \<longrightarrow>
      result lib w = Inl Suspended \<and>
      map fst (sent (trace lib w)) = [0..<Suc k] \<and>
      (\<exists>tx s. last (trace lib w) = SignAndSend k tx s)) \<and>
   (k < 4 \<and> reached w k \<and> signAndSend w k = Resolves us \<and>
    \<not> list_ex (\<lambda>r. isInBlock (status r)) us \<longrightarrow>
      result lib w = Inl Suspended \<and>
      map fst (sent (trace lib w)) = [0..<Suc k] \<and>
      (\<exists>tx s. last (trace lib w) = SignAndSend k tx s)) \<and>
   (k < 4 \<and> reached w k \<and> signAndSend w k = Resolves us \<and>
    find (\<lambda>r. isInBlock (status r)) us = Some r \<and> events r = Some es \<and> ev \<in> set es \<longrightarrow>
      event_line ev \<in> set (trace lib w)) \<and>
   result lib (with_events f w) = result lib w \<and>
   sent (trace lib (with_events f w)) = sent (trace lib w) \<and>
   (result lib w \<noteq> Inl (Exited 0) \<longrightarrow>
      exits (trace lib w) = [] \<and>
      (result lib w = Inl Suspended \<or> (\<exists>e'. result lib w = Inl (Unhandled e'))))"
proof -
  have a: "create w = Rejects e \<Longrightarrow>
      result lib w = Inl (Unhandled e) \<and> trace lib w = [Connect ''ws://127.0.0.1:9944'']"
    by (simp add: result_def trace_def main_def proc_simps)
  have a': "create w = Pending \<Longrightarrow>
      result lib w = Inl Suspended \<and> trace lib w = [Connect ''ws://127.0.0.1:9944'']"
    by (simp add: result_def trace_def main_def proc_simps)
  have b: "create w = Resolves () \<and> isReady w = Rejects e \<Longrightarrow>
      result lib w = Inl (Unhandled e) \<and> trace lib w = [Connect ''ws://127.0.0.1:9944'']"
    by (simp add: result_def trace_def main_def proc_simps)
  have b': "create w = Resolves () \<and> isReady w = Pending \<Longrightarrow>
      result lib w = Inl Suspended \<and> trace lib w = [Connect ''ws://127.0.0.1:9944'']"
    by (simp add: result_def trace_def main_def proc_simps)
  have c: "create w = Resolves () \<and> isReady w = Resolves () \<and> nextJobId w = Rejects e \<Longrightarrow>
      result lib w = Inl (Unhandled e) \<and>
      trace lib w = preamble lib @ [Query ''jobs.nextJobId'']"
    by (simp add: result_def trace_def main_def proc_simps preamble_def)
  have c': "create w = Resolves () \<and> isReady w = Resolves () \<and> nextJobId w = Pending \<Longrightarrow>
      result lib w = Inl Suspended \<and>
      trace lib w = preamble lib @ [Query ''jobs.nextJobId'']"
    by (simp add: result_def trace_def main_def proc_simps preamble_def)
  have d: "k < 4 \<and> reached w k \<and> signAndSend w k = Rejects e \<Longrightarrow>
      result lib w = Inl (Unhandled e) \<and>
      map fst (sent (trace lib w)) = [0..<Suc k] \<and>
      (\<exists>tx s. last (trace lib w) = SignAndSend k tx s)"
  proof -
    assume h: "k < 4 \<and> reached w k \<and> signAndSend w k = Rejects e"
    then have ni: "\<not> included w k"
      by (simp add: included_def)
    from h have "k < 4" "reached w k" by simp_all
    from stuck_at [OF this ni, of lib] h show ?thesis
      by simp
  qed
  have d': "k < 4 \<and> reached w k \<and> signAndSend w k = Pending \<Longrightarrow>
      result lib w = Inl Suspended \<and>
      map fst (sent (trace lib w)) = [0..<Suc k] \<and>
      (\<exists>tx s. last (trace lib w) = SignAndSend k tx s)"
  proof -
    assume h: "k < 4 \<and> reached w k \<and> signAndSend w k = Pending"
    then have ni: "\<not> included w k"
      by (simp add: included_def)
    from h have "k < 4" "reached w k" by simp_all
    from stuck_at [OF this ni, of lib] h show ?thesis
      by simp
  qed
  have e: "k < 4 \<and> reached w k \<and> signAndSend w k = Resolves us \<and>
    \<not> list_ex (\<lambda>r. isInBlock (status r)) us \<Longrightarrow>
      result lib w = Inl Suspended \<and>
      map fst (sent (trace lib w)) = [0..<Suc k] \<and>
      (\<exists>tx s. last (trace lib w) = SignAndSend k tx s)"
  proof -
    assume h: "k < 4 \<and> reached w k \<and> signAndSend w k = Resolves us \<and>
      \<not> list_ex (\<lambda>r. isInBlock (status r)) us"
    then have ni: "\<not> included w k"
      by (simp add: included_def)
    from h have "k < 4" "reached w k" by simp_all
    from stuck_at [OF this ni, of lib] h show ?thesis
      by simp
  qed
  have p: "k < 4 \<and> reached w k \<and> signAndSend w k = Resolves us \<and>
    find (\<lambda>r. isInBlock (status r)) us = Some r \<and> events r = Some es \<and> ev \<in> set es \<Longrightarrow>
      event_line ev \<in> set (trace lib w)"
    using events_printed [of k w us r es ev lib] by blast
  have f: "result lib w \<noteq> Inl (Exited 0) \<Longrightarrow>
      exits (trace lib w) = [] \<and>
      (result lib w = Inl Suspended \<or> (\<exists>e'. result lib w = Inl (Unhandled e')))"
  proof -
    assume "result lib w \<noteq> Inl (Exited 0)"
    then have nr: "\<not> reached w 4"
      by (auto simp: result_main)
    then have "result lib w = Inl Suspended \<or> (\<exists>e'. result lib w = Inl (Unhandled e'))"
      by (simp add: result_main split: promise.splits)
    with nr show ?thesis
      by (simp add: exits_trace)
  qed
  note g = result_with_events [of lib f w] sent_with_events [of lib f w]
  from a a' b b' c c' show ?thesis
    using d d' e p f g by blast
qed

lemma reached_rejecting_node: "reached rejecting_node 1"
  by (simp add: rejecting_node_def local_node_def included_def in_block_def isInBlock_def)

lemma reached_dropping_node: "reached dropping_node 2"
  by (simp add: dropping_node_def local_node_def included_def in_block_def isInBlock_def
      numeral_eq_Suc)

lemma reached_failing_chain: "reached failing_chain 4"
  by (simp add: failing_chain_def failed_in_block_def local_node_def included_def
      in_block_def isInBlock_def numeral_eq_Suc)

text \<open>
  Claim C8 as first stated says that any failure, a rejection by the chain included,
  ends in an unhandled rejection or a crash. It does not: when the chain refuses
  Alice's profile at dispatch the transaction is included with
  \<^verbatim>\<open>system.ExtrinsicFailed\<close>, and the run submits all four transactions and exits
  with status 0; and when the connection is never established the run stays suspended,
  with no rejection and no crash.
\<close>

theorem failures_propagate_counterexample:
  "signAndSend failing_chain 0 = Resolves failed_in_block \<and>
   dispatch_failed (failed_in_block ! 1) \<and>
   result standin_libs failing_chain = Inl (Exited 0) \<and>
   map fst (sent (trace standin_libs failing_chain)) = [0, 1, 2, 3] \<and>
   create (local_node\<lparr>create := Pending\<rparr>) = Pending \<and>
   result standin_libs (local_node\<lparr>create := Pending\<rparr>) = Inl Suspended"
proof -
  have 1: "signAndSend failing_chain 0 = Resolves failed_in_block"
    by (simp add: failing_chain_def)
  have 2: "dispatch_failed (failed_in_block ! 1)"
    by (simp add: failed_in_block_def dispatch_failed_def isInBlock_def)
  have 3: "result standin_libs failing_chain = Inl (Exited 0)"
    using reached_failing_chain by (simp add: result_main)
  have 4: "map fst (sent (trace standin_libs failing_chain)) = [0, 1, 2, 3]"
    by (simp add: sent_trace failing_chain_def failed_in_block_def local_node_def
        included_def in_block_def isInBlock_def plan_def)
  have 5: "result standin_libs (local_node\<lparr>create := Pending\<rparr>) = Inl Suspended"
    by (simp add: result_def main_def proc_simps)
  from 1 2 3 4 5 show ?thesis
    by simp
qed

text \<open>
  Runs against the stand-in library: the node rejects the second submission; the node
  drops the job submission; the creation of the API object rejects; the connection is
  never established; the connection is lost before the node is ready, or before the
  query answers; and the chain refuses a call at dispatch, which is printed and changes
  nothing else.
\<close>

theorem failures_not_handled_witness:
  "reached rejecting_node 1 \<and>
   signAndSend rejecting_node 1 = Rejects (Error ''1010: Invalid Transaction'') \<and>
   result standin_libs rejecting_node = Inl (Unhandled (Error ''1010: Invalid Transaction'')) \<and>
   map fst (sent (trace standin_libs rejecting_node)) = [0, 1] \<and>
   reached dropping_node 2 \<and>
   signAndSend dropping_node 2 =
     Resolves [\<lparr>status = Ready, events = None\<rparr>, \<lparr>status = Dropped, events = None\<rparr>] \<and>
   result standin_libs dropping_node = Inl Suspended \<and>
   map fst (sent (trace standin_libs dropping_node)) = [0, 1, 2] \<and>
   exits (trace standin_libs dropping_node) = [] \<and>
   result standin_libs (local_node\<lparr>create := Rejects (Error ''Unable to initialize the API'')\<rparr>) =
     Inl (Unhandled (Error ''Unable to initialize the API'')) \<and>
   result standin_libs (local_node\<lparr>create := Pending\<rparr>) = Inl Suspended \<and>
   trace standin_libs (local_node\<lparr>create := Pending\<rparr>) = [Connect ''ws://127.0.0.1:9944''] \<and>
   result standin_libs (local_node\<lparr>isReady := Rejects (Error ''disconnected'')\<rparr>) =
     Inl (Unhandled (Error ''disconnected'')) \<and>
   result standin_libs (local_node\<lparr>nextJobId := Rejects (Error ''disconnected'')\<rparr>) =
     Inl (Unhandled (Error ''disconnected'')) \<and>
   trace standin_libs (local_node\<lparr>nextJobId := Rejects (Error ''disconnected'')\<rparr>) =
     preamble standin_libs @ [Query ''jobs.nextJobId''] \<and>
   reached failing_chain 0 \<and>
   signAndSend failing_chain 0 = Resolves failed_in_block \<and>
   find (\<lambda>r. isInBlock (status r)) failed_in_block = Some (failed_in_block ! 1) \<and>
   event_line \<lparr>ev_section = ''system'', ev_method = ''ExtrinsicFailed'',
               ev_data = ''[{module:{index:40,error:0x00000000}}]''\<rparr>
     \<in> set (trace standin_libs failing_chain) \<and>
   result standin_libs (with_events (\<lambda>k r. None) failing_chain) =
     result standin_libs failing_chain"
proof -
  have r: "signAndSend rejecting_node 1 = Rejects (Error ''1010: Invalid Transaction'')"
    by (simp add: rejecting_node_def)
  have d: "signAndSend dropping_node 2 =
     Resolves [\<lparr>status = Ready, events = None\<rparr>, \<lparr>status = Dropped, events = None\<rparr>]"
    by (simp add: dropping_node_def)
  have n: "\<not> list_ex (\<lambda>r. isInBlock (status r))
     [\<lparr>status = Ready, events = None\<rparr>, \<lparr>status = Dropped, events = None\<rparr>]"
    by (simp add: isInBlock_def)
  have u1: "[0..<Suc 1] = [0, 1]" and u2: "[0..<Suc 2] = [0, 1, 2]"
    by (simp_all add: upt_rec)
  from failures_not_handled [where w = rejecting_node
      and e = "Error ''1010: Invalid Transaction''" and lib = standin_libs and k = 1]
    r reached_rejecting_node u1
  have 1: "result standin_libs rejecting_node =
      Inl (Unhandled (Error ''1010: Invalid Transaction'')) \<and>
    map fst (sent (trace standin_libs rejecting_node)) = [0, 1]"
    by simp
  from failures_not_handled [where w = dropping_node and lib = standin_libs and k = 2
      and us = "[\<lparr>status = Ready, events = None\<rparr>, \<lparr>status = Dropped, events = None\<rparr>]"]
    d n reached_dropping_node u2
  have 2: "result standin_libs dropping_node = Inl Suspended \<and>
    map fst (sent (trace standin_libs dropping_node)) = [0, 1, 2] \<and>
    exits (trace standin_libs dropping_node) = []"
    by simp
  from failures_not_handled
    [where w = "local_node\<lparr>create := Rejects (Error ''Unable to initialize the API'')\<rparr>"
      and e = "Error ''Unable to initialize the API''" and lib = standin_libs]
  have 3: "result standin_libs
      (local_node\<lparr>create := Rejects (Error ''Unable to initialize the API'')\<rparr>) =
     Inl (Unhandled (Error ''Unable to initialize the API''))"
    by simp
  from failures_not_handled [where w = "local_node\<lparr>create := Pending\<rparr>"
      and lib = standin_libs]
  have 4: "result standin_libs (local_node\<lparr>create := Pending\<rparr>) = Inl Suspended \<and>
    trace standin_libs (local_node\<lparr>create := Pending\<rparr>) = [Connect ''ws://127.0.0.1:9944'']"
    by simp
  from failures_not_handled
    [where w = "local_node\<lparr>isReady := Rejects (Error ''disconnected'')\<rparr>"
      and e = "Error ''disconnected''" and lib = standin_libs]
  have 5: "result standin_libs (local_node\<lparr>isReady := Rejects (Error ''disconnected'')\<rparr>) =
     Inl (Unhandled (Error ''disconnected''))"
    by (simp add: local_node_def)
  from failures_not_handled
    [where w = "local_node\<lparr>nextJobId := Rejects (Error ''disconnected'')\<rparr>"
      and e = "Error ''disconnected''" and lib = standin_libs]
  have 6: "result standin_libs (local_node\<lparr>nextJobId := Rejects (Error ''disconnected'')\<rparr>) =
     Inl (Unhandled (Error ''disconnected'')) \<and>
   trace standin_libs (local_node\<lparr>nextJobId := Rejects (Error ''disconnected'')\<rparr>) =
     preamble standin_libs @ [Query ''jobs.nextJobId'']"
    by (simp add: local_node_def)
  have f0: "reached failing_chain 0"
    using reached_failing_chain by (simp add: numeral_eq_Suc)
  have f1: "signAndSend failing_chain 0 = Resolves failed_in_block"
    by (simp add: failing_chain_def)
  have f2: "find (\<lambda>r. isInBlock (status r)) failed_in_block = Some (failed_in_block ! 1)"
    by (simp add: failed_in_block_def isInBlock_def)
  have f3: "events (failed_in_block ! 1) =
      Some [\<lparr>ev_section = ''system'', ev_method = ''ExtrinsicFailed'',
               ev_data = ''[{module:{index:40,error:0x00000000}}]''\<rparr>]"
    by (simp add: failed_in_block_def)
  from failures_not_handled [where w = failing_chain and lib = standin_libs and k = 0
      and us = failed_in_block and r = "failed_in_block ! 1"
      and es = "[\<lparr>ev_section = ''system'', ev_method = ''ExtrinsicFailed'',
               ev_data = ''[{module:{index:40,error:0x00000000}}]''\<rparr>]"
      and ev = "\<lparr>ev_section = ''system'', ev_method = ''ExtrinsicFailed'',
               ev_data = ''[{module:{index:40,error:0x00000000}}]''\<rparr>"
      and f = "\<lambda>k r. None"]
    f0 f1 f2 f3
  have 7: "event_line \<lparr>ev_section = ''system'', ev_method = ''ExtrinsicFailed'',
               ev_data = ''[{module:{index:40,error:0x00000000}}]''\<rparr>
     \<in> set (trace standin_libs failing_chain) \<and>
   result standin_libs (with_events (\<lambda>k r. None) failing_chain) =
     result standin_libs failing_chain"
    by simp
  from 1 2 3 4 5 6 7 r d f0 f1 f2 reached_rejecting_node reached_dropping_node show ?thesis
    by blast
qed

end
